theory Spec2Isabelle
  imports Main
begin

section \<open>Values handled by the source controller\<close>

text \<open>
  A filesystem path is the list of its components, as \<open>pathlib\<close> keeps them
  (\<open>Path.parts\<close>); the root of an absolute path is the component \<open>''/''\<close>.
  The source converts between \<open>str\<close> and \<open>Path\<close> (\<open>Path(local_path)\<close>,
  \<open>str(oci_repo_path)\<close>); \<open>Path(str(p))\<close> is \<open>p\<close>, so both are the type \<open>path\<close> here.
\<close>

type_synonym path = "string list"

definition parent :: "path \<Rightarrow> path" where
  "parent p = (if p = [''/''] then p else butlast p)"

fun join_parts :: "string list \<Rightarrow> string" where
  "join_parts [] = []"
| "join_parts [x] = x"
| "join_parts (x # y # ys) = x @ ''/'' @ join_parts (y # ys)"

definition str_path :: "path \<Rightarrow> string" where
  "str_path p =
     (case p of
        [] \<Rightarrow> ''.''
      | x # xs \<Rightarrow> (if x = ''/'' then ''/'' @ join_parts xs else join_parts p))"

text \<open>
  Exceptions are values: the class, the message (what \<open>str(e)\<close> gives) and the
  \<open>__cause__\<close> set by \<open>raise ... from e\<close>. Every value of \<open>exn\<close> is an instance of
  Python's \<open>Exception\<close>; \<open>except yaml.YAMLError\<close> selects the class \<open>YAMLError\<close>.
  The cancellation of a task, which is no \<open>Exception\<close>, is not modelled.
\<close>

datatype exn_class =
  YAMLError | HelmException | TypeError | OSError | UnicodeDecodeError | ValueError
  | OtherException

datatype exn = Exn (class_of: exn_class) (message: string) (cause: "exn option")

text \<open>
  What \<open>yaml.safe_load\<close> returns: the plain Python values of a YAML document. Floats,
  timestamps, binary data and sets, which the parser can also produce, are left out;
  the code treats them as it treats the scalars here.
\<close>

datatype yaml =
  YNull | YBool bool | YInt int | YStr string | YList "yaml list"
  | YDict "(yaml \<times> yaml) list"

text \<open>\<open>isinstance(v, dict)\<close>.\<close>

fun isinstance_dict :: "yaml \<Rightarrow> bool" where
  "isinstance_dict (YDict items) = True"
| "isinstance_dict v = False"

text \<open>Python's truth value, as \<open>not dependencies\<close> tests it.\<close>

fun truthy :: "yaml \<Rightarrow> bool" where
  "truthy YNull = False"
| "truthy (YBool b) = b"
| "truthy (YInt i) = (i \<noteq> 0)"
| "truthy (YStr s) = (s \<noteq> [])"
| "truthy (YList vs) = (vs \<noteq> [])"
| "truthy (YDict items) = (items \<noteq> [])"

text \<open>\<open>len(v)\<close>: a \<open>TypeError\<close> for a value without a length.\<close>

fun py_len :: "yaml \<Rightarrow> exn + nat" where
  "py_len (YStr s) = Inr (length s)"
| "py_len (YList vs) = Inr (length vs)"
| "py_len (YDict items) = Inr (length items)"
| "py_len v = Inl (Exn TypeError ''object has no len()'' None)"

text \<open>\<open>d.get(key, default)\<close> on the items of a dict.\<close>

definition dict_get :: "(yaml \<times> yaml) list \<Rightarrow> yaml \<Rightarrow> yaml \<Rightarrow> yaml" where
  "dict_get items key dflt =
     (case map_of items key of None \<Rightarrow> dflt | Some v \<Rightarrow> v)"

text \<open>\<open>command.Command(args, cwd=..., exc=...)\<close>.\<close>

record command =
  cmd :: "string list"
  cwd :: path
  exc :: exn_class

text \<open>The manifest object of an OCIRepository and the artifact a fetch produces.\<close>

record oci_repository_ref =
  digest :: "string option"
  tag :: "string option"
  semver :: "string option"

record oci_repository =
  name :: string
  namespace :: string
  url :: string
  ref :: "oci_repository_ref option"

record oci_artifact =
  artifact_url :: string
  artifact_ref :: "oci_repository_ref option"
  artifact_local_path :: path

section \<open>State and collaborators\<close>

text \<open>
  The calls to external tools are recorded in order in \<open>trace\<close>: an OCI pull with its
  target and output directory, a command run with its \<open>Command\<close>. The logger's records
  are kept in \<open>logged\<close>. \<open>objects\<close> is the heap of manifest objects, which a controller
  receives by reference; \<open>cache_dirs\<close> are the directories the artifact cache has
  handed out.
\<close>

datatype event = Pull string path | Run command

datatype level = DEBUG | INFO | WARNING | ERROR

datatype log_arg =
  APath path | ANat nat | AYaml yaml | AExn exn | AObj oci_repository
  | AFiles "string list"

datatype log_entry = Log level string "log_arg list"

record state =
  objects :: "nat \<Rightarrow> oci_repository"
  cache_dirs :: "path list"
  trace :: "event list"
  logged :: "log_entry list"

text \<open>
  The collaborators outside the source files: the filesystem (\<open>Path.exists\<close>,
  \<open>Path.rglob\<close>, \<open>Path.read_text\<close>), the YAML parser, the exit of an external command
  (\<open>Inl\<close> its error output, \<open>Inr\<close> its output), the ORAS client, the hash of the
  artifact cache, and the two accessors of \<open>OCIRepository\<close>.
\<close>

record env =
  path_exists :: "path \<Rightarrow> bool"
  rglob :: "path \<Rightarrow> string \<Rightarrow> path list"
  read_text :: "path \<Rightarrow> exn + string"
  safe_load :: "string \<Rightarrow> exn + yaml"
  command_exit :: "command \<Rightarrow> string + string"
  oras_pull :: "string \<Rightarrow> path \<Rightarrow> exn + string list"
  repo_path :: "string \<Rightarrow> string option \<Rightarrow> path"
  version :: "oci_repository \<Rightarrow> string option"
  versioned_url :: "oci_repository \<Rightarrow> string"

definition LOGGER :: "level \<Rightarrow> string \<Rightarrow> log_arg list \<Rightarrow> state \<Rightarrow> state" where
  "LOGGER lv fmt args s = s\<lparr>logged := logged s @ [Log lv fmt args]\<rparr>"

text \<open>
  Modelled from the spec: \<open>command.run\<close> (flux_local/command.py is not among the
  source files). Section 6 gives an external tool invocation as an operation with a
  success value or a typed failure; the type of the failure is the class the
  \<open>Command\<close> carries in \<open>exc\<close>.
\<close>

definition command_run :: "env \<Rightarrow> command \<Rightarrow> state \<Rightarrow> (exn + string) \<times> state" where
  "command_run env c s =
     (let s' = s\<lparr>trace := trace s @ [Run c]\<rparr>
      in case command_exit env c of
           Inl err \<Rightarrow> (Inl (Exn (exc c) err None), s')
         | Inr out \<Rightarrow> (Inr out, s'))"

text \<open>
  Modelled from the spec: \<open>get_repo_path\<close> of the artifact cache
  (source_controller/cache.py is not among the source files). Section 4.1: the same
  (url, version) pair always yields the same directory, which is created on the first
  call.
\<close>

definition get_repo_path :: "env \<Rightarrow> string \<Rightarrow> string option \<Rightarrow> state \<Rightarrow> path \<times> state" where
  "get_repo_path env u v s =
     (let p = repo_path env u v
      in (p, s\<lparr>cache_dirs := List.insert p (cache_dirs s)\<rparr>))"

section \<open>helm_deps.py\<close>

definition HELM_BIN :: string where
  "HELM_BIN = ''helm''"

definition helm_dependency_build :: "path \<Rightarrow> command" where
  "helm_dependency_build chart_dir =
     \<lparr>cmd = [HELM_BIN, ''dependency'', ''build''], cwd = chart_dir, exc = HelmException\<rparr>"

text \<open>
  The body of the \<open>try\<close> block of \<open>_build_chart_dependencies\<close>. The arguments of a
  logging call are evaluated before the call, so \<open>len(dependencies)\<close> raises inside
  the block when the value has no length.
\<close>

definition try_build_chart_dependencies ::
  "env \<Rightarrow> path \<Rightarrow> path \<Rightarrow> state \<Rightarrow> (exn + unit) \<times> state" where
  "try_build_chart_dependencies env chart_file chart_dir s =
     (case read_text env chart_file of
        Inl e \<Rightarrow> (Inl e, s)
      | Inr chart_content \<Rightarrow>
          (case safe_load env chart_content of
             Inl e \<Rightarrow> (Inl e, s)
           | Inr chart_data \<Rightarrow>
               (case chart_data of
                  YDict items \<Rightarrow>
                    (let dependencies = dict_get items (YStr ''dependencies'') (YList [])
                     in if \<not> truthy dependencies
                        then (Inr (),
                              LOGGER DEBUG ''No dependencies found in %s'' [APath chart_file] s)
                        else
                          (case py_len dependencies of
                             Inl e \<Rightarrow> (Inl e, s)
                           | Inr n \<Rightarrow>
                               (let s1 = LOGGER INFO
                                      ''Found %d dependencies in chart %s, building dependencies''
                                      [ANat n,
                                       AYaml (dict_get items (YStr ''name'') (YStr ''unknown''))] s
                                in case command_run env (helm_dependency_build chart_dir) s1 of
                                     (Inl e, s2) \<Rightarrow> (Inl e, s2)
                                   | (Inr out, s2) \<Rightarrow>
                                       (Inr (),
                                        LOGGER INFO
                                          ''Successfully built dependencies for chart %s at %s''
                                          [AYaml (dict_get items (YStr ''name'') (YStr ''unknown'')),
                                           APath chart_dir] s2))))
                | _ \<Rightarrow>
                    (Inr (),
                     LOGGER WARNING ''Invalid Chart.yaml format in %s'' [APath chart_file] s))))"

text \<open>\<open>_build_chart_dependencies\<close>: the \<open>try\<close> block with its two handlers.\<close>

definition build_chart_dependencies :: "env \<Rightarrow> path \<Rightarrow> state \<Rightarrow> (exn + unit) \<times> state" where
  "build_chart_dependencies env chart_file s =
     (let chart_dir = parent chart_file
      in case try_build_chart_dependencies env chart_file chart_dir s of
           (Inr u, s') \<Rightarrow> (Inr (), s')
         | (Inl e, s') \<Rightarrow>
             (if class_of e = YAMLError
              then (Inr (),
                    LOGGER WARNING ''Failed to parse Chart.yaml at %s: %s''
                      [APath chart_file, AExn e] s')
              else (Inl (Exn HelmException
                           (''Failed to build dependencies for chart at '' @ str_path chart_dir
                              @ '': '' @ message e)
                           (Some e)),
                    LOGGER ERROR ''Failed to build dependencies for chart at %s: %s''
                      [APath chart_dir, AExn e] s')))"

text \<open>The \<open>for\<close> loop of \<open>build_helm_dependencies\<close>: an exception leaves the loop.\<close>

fun build_charts :: "env \<Rightarrow> path list \<Rightarrow> state \<Rightarrow> (exn + unit) \<times> state" where
  "build_charts env [] s = (Inr (), s)"
| "build_charts env (chart_file # rest) s =
     (case build_chart_dependencies env chart_file s of
        (Inl e, s') \<Rightarrow> (Inl e, s')
      | (Inr u, s') \<Rightarrow> build_charts env rest s')"

definition build_helm_dependencies :: "env \<Rightarrow> path \<Rightarrow> state \<Rightarrow> (exn + unit) \<times> state" where
  "build_helm_dependencies env local_path s =
     (if \<not> path_exists env local_path
      then (Inr (),
            LOGGER DEBUG ''Path %s does not exist, skipping dependency build''
              [APath local_path] s)
      else
        (let chart_files = rglob env local_path ''Chart.yaml''
         in if chart_files = []
            then (Inr (),
                  LOGGER DEBUG ''No Chart.yaml files found in %s'' [APath local_path] s)
            else build_charts env chart_files
                   (LOGGER DEBUG ''Found %d Chart.yaml files in %s''
                      [ANat (length chart_files), APath local_path] s)))"

section \<open>oci.py\<close>

text \<open>
  \<open>fetch_oci\<close> receives the object by reference: \<open>r\<close> is its address in \<open>objects\<close>,
  and every read of a field goes through the heap at the moment of the read.
\<close>

definition fetch_oci :: "env \<Rightarrow> nat \<Rightarrow> state \<Rightarrow> (exn + oci_artifact) \<times> state" where
  "fetch_oci env r s =
     (case get_repo_path env (url (objects s r)) (version env (objects s r)) s of
        (oci_repo_path, s1) \<Rightarrow>
          (let s2 = LOGGER INFO ''Fetching OCI repository %s'' [AObj (objects s1 r)] s1;
               target = versioned_url env (objects s2 r);
               s3 = s2\<lparr>trace := trace s2 @ [Pull target oci_repo_path]\<rparr>
           in case oras_pull env target oci_repo_path of
                Inl e \<Rightarrow> (Inl e, s3)
              | Inr res \<Rightarrow>
                  (let s4 = LOGGER DEBUG ''Downloaded resources: %s'' [AFiles res] s3;
                       s5 = LOGGER DEBUG ''Checking for Helm charts with dependencies in %s''
                              [APath oci_repo_path] s4
                   in case build_helm_dependencies env oci_repo_path s5 of
                        (Inl e, s6) \<Rightarrow> (Inl e, s6)
                      | (Inr u, s6) \<Rightarrow>
                          (Inr \<lparr>artifact_url = url (objects s6 r),
                                artifact_ref = ref (objects s6 r),
                                artifact_local_path = oci_repo_path\<rparr>,
                           s6))))"

section \<open>What a descriptor declares\<close>

text \<open>The parsed content of a descriptor: reading the file, then parsing the text.\<close>

definition descriptor :: "env \<Rightarrow> path \<Rightarrow> exn + yaml" where
  "descriptor env chart_file =
     (case read_text env chart_file of
        Inl e \<Rightarrow> Inl e
      | Inr chart_content \<Rightarrow> safe_load env chart_content)"

text \<open>The descriptors \<open>build_helm_dependencies\<close> discovers under a path.\<close>

definition discovered :: "env \<Rightarrow> path \<Rightarrow> path list" where
  "discovered env local_path =
     (if path_exists env local_path then rglob env local_path ''Chart.yaml'' else [])"

fun has_dependencies :: "yaml \<Rightarrow> bool" where
  "has_dependencies (YDict items) = truthy (dict_get items (YStr ''dependencies'') (YList []))"
| "has_dependencies v = False"

text \<open>
  The descriptor is a mapping whose \<open>dependencies\<close> value is true for Python; for a
  list that is: not empty.
\<close>

definition declares_dependencies :: "env \<Rightarrow> path \<Rightarrow> bool" where
  "declares_dependencies env chart_file =
     (case descriptor env chart_file of Inl e \<Rightarrow> False | Inr v \<Rightarrow> has_dependencies v)"

fun lacks_dependencies :: "yaml \<Rightarrow> bool" where
  "lacks_dependencies (YDict items) =
     (case map_of items (YStr ''dependencies'') of None \<Rightarrow> True | Some v \<Rightarrow> v = YList [])"
| "lacks_dependencies v = False"

text \<open>The descriptor is a mapping with no \<open>dependencies\<close> key, or with the empty list.\<close>

definition no_dependencies :: "env \<Rightarrow> path \<Rightarrow> bool" where
  "no_dependencies env chart_file =
     (case descriptor env chart_file of Inl e \<Rightarrow> False | Inr v \<Rightarrow> lacks_dependencies v)"



text \<open>The descriptor parses, to a value that is not a mapping.\<close>

definition not_a_mapping :: "env \<Rightarrow> path \<Rightarrow> bool" where
  "not_a_mapping env chart_file =
     (case descriptor env chart_file of Inl e \<Rightarrow> False | Inr v \<Rightarrow> \<not> isinstance_dict v)"

section \<open>Effects\<close>

text \<open>
  The external calls made between two states, and the state after some calls and log
  records.
\<close>

definition events_since :: "state \<Rightarrow> state \<Rightarrow> event list" where
  "events_since s s' = drop (length (trace s)) (trace s')"

definition emit :: "event list \<Rightarrow> log_entry list \<Rightarrow> state \<Rightarrow> state" where
  "emit evs recs s = s\<lparr>trace := trace s @ evs, logged := logged s @ recs\<rparr>"

fun is_pull :: "event \<Rightarrow> bool" where
  "is_pull (Pull target outdir) = True"
| "is_pull (Run c) = False"

section \<open>An example tree\<close>

text \<open>
  A cache directory with chart directories below it. The text of a descriptor is
  abbreviated to the name of its chart directory, and the parser maps each text to the
  document it stands for: \<open>umbrella\<close>, \<open>other\<close> and \<open>third\<close> declare one
  dependency, \<open>simple\<close> has no \<open>dependencies\<close> key, \<open>bare\<close> has the empty list,
  \<open>invalid\<close> is rejected by the parser with a \<open>YAMLError\<close>, \<open>baddate\<close> (a date such as
  the 30th of February) makes the parser raise a \<open>ValueError\<close>, \<open>listy\<close> is a list and
  any other text an empty document.
\<close>

definition example_root :: path where
  "example_root = [''cache'', ''oci://r'']"

definition chart :: "string \<Rightarrow> path" where
  "chart d = [''cache'', ''oci://r'', d, ''Chart.yaml'']"

definition example_read :: "path \<Rightarrow> exn + string" where
  "example_read p =
     (if length p = 4 \<and> last p = ''Chart.yaml'' then Inr (p ! 2)
      else Inl (Exn OSError ''No such file or directory'' None))"

definition example_load :: "string \<Rightarrow> exn + yaml" where
  "example_load content =
     (if content \<in> set [''umbrella'', ''other'', ''third''] then
        Inr (YDict [(YStr ''name'', YStr content),
                    (YStr ''dependencies'', YList [YDict [(YStr ''name'', YStr ''nginx'')]])])
      else if content = ''simple'' then Inr (YDict [(YStr ''name'', YStr content)])
      else if content = ''bare'' then
        Inr (YDict [(YStr ''name'', YStr content), (YStr ''dependencies'', YList [])])
      else if content = ''invalid'' then
        Inl (Exn YAMLError ''mapping values are not allowed here'' None)
      else if content = ''baddate'' then
        Inl (Exn ValueError ''day is out of range for month'' None)
      else if content = ''listy'' then Inr (YList [YStr ''a''])
      else Inr YNull)"

definition example_version :: "oci_repository \<Rightarrow> string option" where
  "example_version obj =
     (case ref obj of
        None \<Rightarrow> None
      | Some rf \<Rightarrow> (case digest rf of Some d \<Rightarrow> Some d | None \<Rightarrow> tag rf))"

definition example_versioned_url :: "oci_repository \<Rightarrow> string" where
  "example_versioned_url obj =
     (case example_version obj of None \<Rightarrow> url obj | Some v \<Rightarrow> url obj @ ''@'' @ v)"

text \<open>
  The tree holds the descriptors \<open>files\<close>; \<open>helm dependency build\<close> fails in the
  directories \<open>failing\<close>; a pull of the targets \<open>unreachable\<close> fails.
\<close>

definition example_env :: "path list \<Rightarrow> path list \<Rightarrow> string list \<Rightarrow> env" where
  "example_env files failing unreachable =
     \<lparr>path_exists = (\<lambda>p. p = example_root),
      rglob = (\<lambda>p pat. if p = example_root \<and> pat = ''Chart.yaml'' then files else []),
      read_text = example_read,
      safe_load = example_load,
      command_exit = (\<lambda>c. if cwd c \<in> set failing then Inl ''exit status 1'' else Inr []),
      oras_pull = (\<lambda>target outdir.
         if target \<in> set unreachable then Inl (Exn OtherException ''pull failed'' None)
         else Inr [''Chart.yaml'']),
      repo_path = (\<lambda>u v. [''cache'', u]),
      version = example_version,
      versioned_url = example_versioned_url\<rparr>"

definition example_obj :: oci_repository where
  "example_obj =
     \<lparr>name = ''r'', namespace = ''flux-system'', url = ''oci://r'',
      ref = Some \<lparr>digest = Some ''sha256:ab'', tag = None, semver = None\<rparr>\<rparr>"

definition example_state :: state where
  "example_state =
     \<lparr>objects = (\<lambda>r. example_obj), cache_dirs = [], trace = [], logged = []\<rparr>"

section \<open>Effects of the dependency build\<close>

lemma LOGGER_emit: "LOGGER lv fmt args s = emit [] [Log lv fmt args] s"
  by (simp add: LOGGER_def emit_def)

lemma LOGGER_fields:
  "trace (LOGGER lv fmt args s) = trace s"
  "logged (LOGGER lv fmt args s) = logged s @ [Log lv fmt args]"
  "objects (LOGGER lv fmt args s) = objects s"
  "cache_dirs (LOGGER lv fmt args s) = cache_dirs s"
  by (simp_all add: LOGGER_def)

lemma emit_emit: "emit T2 L2 (emit T1 L1 s) = emit (T1 @ T2) (L1 @ L2) s"
  by (simp add: emit_def)

lemma emit_nil: "emit [] [] s = s"
  by (simp add: emit_def)

lemma emit_fields:
  "trace (emit T L s) = trace s @ T"
  "logged (emit T L s) = logged s @ L"
  "objects (emit T L s) = objects s"
  "cache_dirs (emit T L s) = cache_dirs s"
  by (simp_all add: emit_def)

lemma command_run_emit:
  "command_run env c s =
     (case command_exit env c of Inl err \<Rightarrow> Inl (Exn (exc c) err None) | Inr out \<Rightarrow> Inr out,
      emit [Run c] [] s)"
  by (simp add: command_run_def emit_def Let_def split: sum.splits)

lemma py_len_Inl: "py_len v = Inl e \<Longrightarrow> class_of e = TypeError"
  by (cases v) auto

lemma step_shape:
  "(\<not> declares_dependencies env f \<and> (\<exists>L. \<forall>s. build_chart_dependencies env f s = (Inr (), emit [] L s)))
   \<or> (\<exists>e L. \<forall>s. build_chart_dependencies env f s = (Inl e, emit [] L s))
   \<or> (declares_dependencies env f \<and> (\<exists>out. command_exit env (helm_dependency_build (parent f)) = Inr out)
       \<and> (\<exists>L. \<forall>s. build_chart_dependencies env f s
             = (Inr (), emit [Run (helm_dependency_build (parent f))] L s)))
   \<or> (declares_dependencies env f
       \<and> (\<exists>err L. command_exit env (helm_dependency_build (parent f)) = Inl err
           \<and> (\<forall>s. build_chart_dependencies env f s
                 = (Inl (Exn HelmException
                      (''Failed to build dependencies for chart at '' @ str_path (parent f)
                         @ '': '' @ err)
                      (Some (Exn HelmException err None))),
                    emit [Run (helm_dependency_build (parent f))] L s))))"
proof -
  note defs = build_chart_dependencies_def try_build_chart_dependencies_def
    declares_dependencies_def descriptor_def Let_def command_run_emit LOGGER_emit emit_emit
    helm_dependency_build_def
  show ?thesis
  proof (cases "read_text env f")
    case (Inl e)
    then show ?thesis by (auto simp add: defs)
  next
    case readable: (Inr content)
    show ?thesis
    proof (cases "safe_load env content")
      case (Inl e)
      with readable show ?thesis by (auto simp add: defs)
    next
      case parsed: (Inr v)
      show ?thesis
      proof (cases "isinstance_dict v")
        case False
        with readable parsed show ?thesis by (cases v) (auto simp add: defs)
      next
        case True
        then obtain items where v: "v = YDict items" by (cases v) auto
        show ?thesis
        proof (cases "truthy (dict_get items (YStr ''dependencies'') (YList []))")
          case False
          with readable parsed v show ?thesis by (auto simp add: defs)
        next
          case deps: True
          show ?thesis
          proof (cases "py_len (dict_get items (YStr ''dependencies'') (YList []))")
            case (Inl e)
            with readable parsed v deps py_len_Inl [OF Inl] show ?thesis
              by (auto simp add: defs)
          next
            case len: (Inr n)
            show ?thesis
            proof (cases "command_exit env (helm_dependency_build (parent f))")
              case (Inl err)
              with readable parsed v deps len show ?thesis by (auto simp add: defs)
            next
              case (Inr out)
              with readable parsed v deps len show ?thesis by (auto simp add: defs)
            qed
          qed
        qed
      qed
    qed
  qed
qed


lemma step_cases [case_names skip raise built failed]:
  obtains
    (skip) L where "\<not> declares_dependencies env f"
      "\<And>s. build_chart_dependencies env f s = (Inr (), emit [] L s)"
  | (raise) e L where "\<And>s. build_chart_dependencies env f s = (Inl e, emit [] L s)"
  | (built) out L where "declares_dependencies env f"
      "command_exit env (helm_dependency_build (parent f)) = Inr out"
      "\<And>s. build_chart_dependencies env f s
         = (Inr (), emit [Run (helm_dependency_build (parent f))] L s)"
  | (failed) err L where "declares_dependencies env f"
      "command_exit env (helm_dependency_build (parent f)) = Inl err"
      "\<And>s. build_chart_dependencies env f s
         = (Inl (Exn HelmException
              (''Failed to build dependencies for chart at '' @ str_path (parent f)
                 @ '': '' @ err)
              (Some (Exn HelmException err None))),
            emit [Run (helm_dependency_build (parent f))] L s)"
  using step_shape [of env f] by blast

lemma build_charts_effects:
  "\<exists>r cs L. \<forall>s. build_charts env fs s = (r, emit (map Run cs) L s)"
proof (induction fs)
  case Nil
  have "\<forall>s. build_charts env [] s = (Inr (), emit (map Run []) [] s)"
    by (simp add: emit_nil)
  then show ?case by blast
next
  case (Cons f fs)
  then obtain r cs L where rest: "\<And>s. build_charts env fs s = (r, emit (map Run cs) L s)"
    by blast
  show ?case
  proof (cases env f rule: step_cases)
    case (skip L1)
    then have "\<forall>s. build_charts env (f # fs) s = (r, emit (map Run cs) (L1 @ L) s)"
      by (simp add: rest emit_emit)
    then show ?thesis by blast
  next
    case (raise e L1)
    then have "\<forall>s. build_charts env (f # fs) s = (Inl e, emit (map Run []) L1 s)"
      by simp
    then show ?thesis by blast
  next
    case (built out L1)
    then have "\<forall>s. build_charts env (f # fs) s
        = (r, emit (map Run (helm_dependency_build (parent f) # cs)) (L1 @ L) s)"
      by (simp add: rest emit_emit)
    then show ?thesis by blast
  next
    case (failed err L1)
    then have "\<forall>s. build_charts env (f # fs) s
        = (Inl (Exn HelmException
              (''Failed to build dependencies for chart at '' @ str_path (parent f)
                 @ '': '' @ err)
              (Some (Exn HelmException err None))),
           emit (map Run [helm_dependency_build (parent f)]) L1 s)"
      by simp
    then show ?thesis by blast
  qed
qed

lemma build_charts_append:
  "build_charts env (xs @ ys) s =
     (case build_charts env xs s of
        (Inl e, s') \<Rightarrow> (Inl e, s')
      | (Inr u, s') \<Rightarrow> build_charts env ys s')"
  by (induction xs arbitrary: s) (auto split: prod.splits sum.splits)

lemma build_charts_trace:
  "fst (build_charts env fs s) = Inr () \<Longrightarrow>
   trace (snd (build_charts env fs s)) =
     trace s @ map (\<lambda>f. Run (helm_dependency_build (parent f)))
                 (filter (declares_dependencies env) fs)"
proof (induction fs arbitrary: s)
  case Nil
  then show ?case by simp
next
  case (Cons f fs)
  show ?case
  proof (cases env f rule: step_cases)
    case (skip L1)
    with Cons.prems have "fst (build_charts env fs (emit [] L1 s)) = Inr ()" by simp
    from Cons.IH [OF this] skip show ?thesis by (simp add: emit_fields)
  next
    case (raise e L1)
    with Cons.prems show ?thesis by simp
  next
    case (built out L1)
    with Cons.prems have
      "fst (build_charts env fs (emit [Run (helm_dependency_build (parent f))] L1 s)) = Inr ()"
      by simp
    from Cons.IH [OF this] built show ?thesis by (simp add: emit_fields)
  next
    case (failed err L1)
    with Cons.prems show ?thesis by simp
  qed
qed

lemma events_since_emit: "events_since s (emit T L s) = T"
  by (simp add: events_since_def emit_fields)

lemma build_charts_failed_run:
  "Run c \<in> set (events_since s (snd (build_charts env fs s))) \<Longrightarrow>
   command_exit env c = Inl err \<Longrightarrow>
   fst (build_charts env fs s) =
     Inl (Exn HelmException
            (''Failed to build dependencies for chart at '' @ str_path (cwd c) @ '': '' @ err)
            (Some (Exn HelmException err None)))"
proof (induction fs arbitrary: s)
  case Nil
  then show ?case by (simp add: events_since_def)
next
  case (Cons f fs)
  obtain r cs L where rest': "\<And>s. build_charts env fs s = (r, emit (map Run cs) L s)"
    using build_charts_effects [of env fs] by blast
  define T where "T = map Run cs"
  have rest: "\<And>s. build_charts env fs s = (r, emit T L s)"
    by (simp add: rest' T_def)
  show ?case
  proof (cases env f rule: step_cases)
    case (skip L1)
    with Cons.prems(1) have "Run c \<in> set T"
      by (simp add: rest emit_emit events_since_emit)
    then have "Run c \<in> set (events_since (emit [] L1 s) (snd (build_charts env fs (emit [] L1 s))))"
      by (simp add: rest events_since_emit)
    from Cons.IH [OF this Cons.prems(2)] skip show ?thesis by simp
  next
    case (raise e L1)
    with Cons.prems(1) show ?thesis by (simp add: events_since_emit)
  next
    case (built out L1)
    let ?s1 = "emit [Run (helm_dependency_build (parent f))] L1 s"
    from built Cons.prems(1) have "c = helm_dependency_build (parent f) \<or> Run c \<in> set T"
      by (auto simp add: rest emit_emit events_since_emit)
    with built(2) Cons.prems(2) have "Run c \<in> set T" by auto
    then have "Run c \<in> set (events_since ?s1 (snd (build_charts env fs ?s1)))"
      by (simp add: rest events_since_emit)
    from Cons.IH [OF this Cons.prems(2)] built show ?thesis by simp
  next
    case (failed err1 L1)
    with Cons.prems(1) have c: "c = helm_dependency_build (parent f)"
      by (simp add: events_since_emit)
    with failed(2) Cons.prems(2) have "err1 = err" by simp
    with failed c show ?thesis by (simp add: helm_dependency_build_def)
  qed
qed


lemma build_helm_dependencies_no_charts:
  assumes "\<not> (path_exists env p \<and> rglob env p ''Chart.yaml'' \<noteq> [])"
  shows "build_helm_dependencies env p s =
     (Inr (),
      LOGGER DEBUG
        (if \<not> path_exists env p then ''Path %s does not exist, skipping dependency build''
         else ''No Chart.yaml files found in %s'')
        [APath p] s)"
  using assms by (auto simp add: build_helm_dependencies_def)

lemma build_helm_dependencies_some_charts:
  assumes "path_exists env p \<and> rglob env p ''Chart.yaml'' \<noteq> []"
  shows "build_helm_dependencies env p s =
     build_charts env (discovered env p)
       (LOGGER DEBUG ''Found %d Chart.yaml files in %s''
          [ANat (length (discovered env p)), APath p] s)"
  using assms by (simp add: build_helm_dependencies_def discovered_def Let_def)

lemma build_helm_dependencies_effects:
  "\<exists>r cs L. \<forall>s. build_helm_dependencies env p s = (r, emit (map Run cs) L s)"
proof (cases "path_exists env p \<and> rglob env p ''Chart.yaml'' \<noteq> []")
  case False
  define fmt where "fmt = (if \<not> path_exists env p
         then ''Path %s does not exist, skipping dependency build''
         else ''No Chart.yaml files found in %s'')"
  have "\<forall>s. build_helm_dependencies env p s
      = (Inr (), emit (map Run []) [Log DEBUG fmt [APath p]] s)"
    unfolding fmt_def by (simp add: build_helm_dependencies_no_charts [OF False] LOGGER_emit)
  then show ?thesis by blast
next
  case True
  obtain r cs L where
    eff: "\<And>s. build_charts env (discovered env p) s = (r, emit (map Run cs) L s)"
    using build_charts_effects [of env "discovered env p"] by blast
  have "\<forall>s. build_helm_dependencies env p s =
      (r, emit (map Run cs)
            (Log DEBUG ''Found %d Chart.yaml files in %s''
               [ANat (length (discovered env p)), APath p] # L) s)"
    by (simp add: build_helm_dependencies_some_charts [OF True] eff LOGGER_emit emit_emit)
  then show ?thesis by blast
qed

lemma build_helm_dependencies_fst:
  "fst (build_helm_dependencies env p s) = fst (build_charts env (discovered env p) s)"
proof (cases "path_exists env p \<and> rglob env p ''Chart.yaml'' \<noteq> []")
  case False
  then have "discovered env p = []" by (auto simp add: discovered_def)
  then show ?thesis by (simp add: build_helm_dependencies_no_charts [OF False])
next
  case True
  obtain r cs L where
    eff: "\<And>s. build_charts env (discovered env p) s = (r, emit (map Run cs) L s)"
    using build_charts_effects [of env "discovered env p"] by blast
  show ?thesis by (simp add: build_helm_dependencies_some_charts [OF True] eff)
qed

lemma build_helm_dependencies_trace:
  "trace (snd (build_helm_dependencies env p s)) =
     trace (snd (build_charts env (discovered env p) s))"
proof (cases "path_exists env p \<and> rglob env p ''Chart.yaml'' \<noteq> []")
  case False
  then have "discovered env p = []" by (auto simp add: discovered_def)
  then show ?thesis
    by (simp add: build_helm_dependencies_no_charts [OF False] LOGGER_emit emit_fields)
next
  case True
  obtain r cs L where
    eff: "\<And>s. build_charts env (discovered env p) s = (r, emit (map Run cs) L s)"
    using build_charts_effects [of env "discovered env p"] by blast
  show ?thesis
    by (simp add: build_helm_dependencies_some_charts [OF True] eff LOGGER_emit emit_fields)
qed

section \<open>Claims\<close>

text \<open>
  C6. For a path that does not exist, or a tree in which the recursive search finds no
  \<open>Chart.yaml\<close>, \<open>build_helm_dependencies\<close> returns normally, runs no external command
  and raises nothing: all it does is write one record at level DEBUG.
\<close>

theorem build_helm_dependencies_silent_noop:
  assumes "\<not> path_exists env local_path \<or> rglob env local_path ''Chart.yaml'' = []"
  shows "build_helm_dependencies env local_path s =
           (Inr (),
            LOGGER DEBUG
              (if \<not> path_exists env local_path
               then ''Path %s does not exist, skipping dependency build''
               else ''No Chart.yaml files found in %s'')
              [APath local_path] s)
         \<and> trace (snd (build_helm_dependencies env local_path s)) = trace s"
proof -
  from assms have none: "\<not> (path_exists env local_path \<and> rglob env local_path ''Chart.yaml'' \<noteq> [])"
    by blast
  show ?thesis
    by (simp add: build_helm_dependencies_no_charts [OF none] LOGGER_emit emit_fields)
qed

theorem build_helm_dependencies_silent_noop_witness:
  "fst (build_helm_dependencies (example_env [] [] []) [''missing''] example_state) = Inr ()
   \<and> trace (snd (build_helm_dependencies (example_env [] [] []) [''missing''] example_state)) = []
   \<and> fst (build_helm_dependencies (example_env [] [] []) example_root example_state) = Inr ()
   \<and> trace (snd (build_helm_dependencies (example_env [] [] []) example_root example_state)) = []"
proof -
  have missing: "\<not> path_exists (example_env [] [] []) [''missing'']
      \<or> rglob (example_env [] [] []) [''missing''] ''Chart.yaml'' = []"
    by (simp add: example_env_def example_root_def)
  have bare: "\<not> path_exists (example_env [] [] []) example_root
      \<or> rglob (example_env [] [] []) example_root ''Chart.yaml'' = []"
    by (simp add: example_env_def example_root_def)
  have start: "trace example_state = []"
    by (simp add: example_state_def)
  from build_helm_dependencies_silent_noop [OF missing, of example_state]
    build_helm_dependencies_silent_noop [OF bare, of example_state] start
  show ?thesis by (simp add: LOGGER_fields)
qed

lemma no_dependencies_step:
  assumes "no_dependencies env f"
  shows "build_chart_dependencies env f s =
           (Inr (), LOGGER DEBUG ''No dependencies found in %s'' [APath f] s)"
proof -
  from assms obtain content items where
    r: "read_text env f = Inr content" and p: "safe_load env content = Inr (YDict items)"
    and l: "lacks_dependencies (YDict items)"
    by (auto simp add: no_dependencies_def descriptor_def split: sum.splits
        elim: lacks_dependencies.elims)
  from l have "\<not> truthy (dict_get items (YStr ''dependencies'') (YList []))"
    by (auto simp add: dict_get_def split: option.splits)
  with r p show ?thesis
    by (simp add: build_chart_dependencies_def try_build_chart_dependencies_def Let_def)
qed

lemma no_dependencies_charts:
  "\<forall>f \<in> set fs. no_dependencies env f \<Longrightarrow>
   fst (build_charts env fs s) = Inr () \<and> trace (snd (build_charts env fs s)) = trace s"
  by (induction fs arbitrary: s) (simp_all add: no_dependencies_step LOGGER_fields)

text \<open>
  C2. When every descriptor found under the path is a mapping with no \<open>dependencies\<close>
  key or with the empty list, \<open>build_helm_dependencies\<close> runs no command and returns
  normally.
\<close>

theorem no_dependencies_no_build:
  assumes "\<forall>f \<in> set (discovered env local_path). no_dependencies env f"
  shows "fst (build_helm_dependencies env local_path s) = Inr ()
         \<and> trace (snd (build_helm_dependencies env local_path s)) = trace s"
  using no_dependencies_charts [OF assms, of s]
  by (simp add: build_helm_dependencies_fst build_helm_dependencies_trace)

lemmas example_defs =
  example_env_def example_root_def chart_def example_read_def example_load_def
  example_state_def example_obj_def example_version_def example_versioned_url_def

lemmas model_defs =
  build_helm_dependencies_def build_chart_dependencies_def try_build_chart_dependencies_def
  command_run_def helm_dependency_build_def HELM_BIN_def LOGGER_def dict_get_def parent_def
  str_path_def Let_def

theorem no_dependencies_no_build_witness:
  "fst (build_helm_dependencies (example_env [chart ''simple'', chart ''bare''] [] [])
          example_root example_state) = Inr ()
   \<and> trace (snd (build_helm_dependencies (example_env [chart ''simple'', chart ''bare''] [] [])
          example_root example_state)) = []"
proof -
  have h: "\<forall>f \<in> set (discovered (example_env [chart ''simple'', chart ''bare''] [] []) example_root).
             no_dependencies (example_env [chart ''simple'', chart ''bare''] [] []) f"
    by (simp add: discovered_def no_dependencies_def descriptor_def example_defs)
  have start: "trace example_state = []"
    by (simp add: example_state_def)
  from no_dependencies_no_build [OF h, of example_state] start show ?thesis by simp
qed


text \<open>
  C9. A descriptor that parses to a value that is not a mapping (a list, a scalar, the
  \<open>None\<close> of an empty file) is skipped with one WARNING record: nothing is raised, no
  command is run, and the loop goes on with the next descriptor.
\<close>

theorem non_mapping_descriptor_skipped:
  assumes "not_a_mapping env chart_file"
  shows "build_chart_dependencies env chart_file s =
           (Inr (), LOGGER WARNING ''Invalid Chart.yaml format in %s'' [APath chart_file] s)
         \<and> trace (snd (build_chart_dependencies env chart_file s)) = trace s
         \<and> build_charts env (chart_file # rest) s =
             build_charts env rest
               (LOGGER WARNING ''Invalid Chart.yaml format in %s'' [APath chart_file] s)"
proof -
  from assms obtain content v where
    r: "read_text env chart_file = Inr content" and p: "safe_load env content = Inr v"
    and n: "\<not> isinstance_dict v"
    by (auto simp add: not_a_mapping_def descriptor_def split: sum.splits)
  from r p n have step: "build_chart_dependencies env chart_file s =
      (Inr (), LOGGER WARNING ''Invalid Chart.yaml format in %s'' [APath chart_file] s)"
    by (cases v)
      (simp_all add: build_chart_dependencies_def try_build_chart_dependencies_def Let_def)
  then show ?thesis by (simp add: LOGGER_fields)
qed

theorem non_mapping_descriptor_skipped_witness:
  "fst (build_chart_dependencies (example_env [] [] []) (chart ''listy'') example_state) = Inr ()
   \<and> trace (snd (build_chart_dependencies (example_env [] [] []) (chart ''listy'')
        example_state)) = []
   \<and> logged (snd (build_chart_dependencies (example_env [] [] []) (chart ''empty'')
        example_state))
       = [Log WARNING ''Invalid Chart.yaml format in %s'' [APath (chart ''empty'')]]"
proof -
  have l: "not_a_mapping (example_env [] [] []) (chart ''listy'')"
    by (simp add: not_a_mapping_def descriptor_def example_defs)
  have e: "not_a_mapping (example_env [] [] []) (chart ''empty'')"
    by (simp add: not_a_mapping_def descriptor_def example_defs)
  have start: "trace example_state = []" "logged example_state = []"
    by (simp_all add: example_state_def)
  from non_mapping_descriptor_skipped [OF l, of example_state "[]"]
    non_mapping_descriptor_skipped [OF e, of example_state "[]"] start
  show ?thesis by (simp add: LOGGER_fields)
qed







lemma build_charts_runs:
  "Run c \<in> set (events_since s (snd (build_charts env fs s))) \<Longrightarrow>
   \<exists>f \<in> set fs. declares_dependencies env f \<and> c = helm_dependency_build (parent f)"
proof (induction fs arbitrary: s)
  case Nil
  then show ?case by (simp add: events_since_def)
next
  case (Cons f fs)
  obtain r cs L where rest: "\<And>s. build_charts env fs s = (r, emit (map Run cs) L s)"
    using build_charts_effects [of env fs] by blast
  show ?case
  proof (cases env f rule: step_cases)
    case (skip L1)
    with Cons.prems have "Run c \<in> set (map Run cs)"
      by (simp add: rest emit_emit events_since_emit)
    then have "Run c \<in> set (events_since (emit [] L1 s) (snd (build_charts env fs (emit [] L1 s))))"
      by (simp add: rest events_since_emit)
    from Cons.IH [OF this] show ?thesis by auto
  next
    case (raise e L1)
    with Cons.prems show ?thesis by (simp add: events_since_emit)
  next
    case (built out L1)
    let ?s1 = "emit [Run (helm_dependency_build (parent f))] L1 s"
    from built Cons.prems have "c = helm_dependency_build (parent f) \<or> Run c \<in> set (map Run cs)"
      by (auto simp add: rest emit_emit events_since_emit)
    then show ?thesis
    proof
      assume "c = helm_dependency_build (parent f)"
      with built(1) show ?thesis by simp
    next
      assume "Run c \<in> set (map Run cs)"
      then have "Run c \<in> set (events_since ?s1 (snd (build_charts env fs ?s1)))"
        by (simp add: rest events_since_emit)
      from Cons.IH [OF this] show ?thesis by auto
    qed
  next
    case (failed err1 L1)
    with Cons.prems show ?thesis by (simp add: events_since_emit)
  qed
qed

text \<open>
  C3. When a command run by \<open>build_helm_dependencies\<close> fails with the error \<open>e\<close>, the
  whole call raises a \<open>HelmException\<close> whose cause is \<open>e\<close>.
\<close>

theorem failed_build_raises_HelmException:
  assumes "Run c \<in> set (events_since s (snd (build_helm_dependencies env local_path s)))"
    and "fst (command_run env c s0) = Inl e"
  shows "fst (build_helm_dependencies env local_path s) =
           Inl (Exn HelmException
                  (''Failed to build dependencies for chart at '' @ str_path (cwd c)
                     @ '': '' @ message e)
                  (Some e))"
proof -
  from assms(2) obtain err where err: "command_exit env c = Inl err"
    and e: "e = Exn (exc c) err None"
    by (auto simp add: command_run_def Let_def split: sum.splits)
  from assms(1) have run: "Run c \<in> set (events_since s (snd (build_charts env (discovered env local_path) s)))"
    by (simp add: events_since_def build_helm_dependencies_trace)
  from build_charts_runs [OF run] have "exc c = HelmException"
    by (auto simp add: helm_dependency_build_def)
  with build_charts_failed_run [OF run err] e show ?thesis
    by (simp add: build_helm_dependencies_fst)
qed


theorem failed_build_raises_HelmException_witness:
  "fst (build_helm_dependencies
          (example_env [chart ''umbrella'', chart ''other''] [[''cache'', ''oci://r'', ''other'']] [])
          example_root example_state)
     = Inl (Exn HelmException
              ''Failed to build dependencies for chart at cache/oci://r/other: exit status 1''
              (Some (Exn HelmException ''exit status 1'' None)))"
proof -
  let ?env = "example_env [chart ''umbrella'', chart ''other''] [[''cache'', ''oci://r'', ''other'']] []"
  let ?c = "helm_dependency_build [''cache'', ''oci://r'', ''other'']"
  have made: "Run ?c \<in> set (events_since example_state
      (snd (build_helm_dependencies ?env example_root example_state)))"
    by (simp add: events_since_def model_defs example_defs)
  have fails: "fst (command_run ?env ?c example_state) = Inl (Exn HelmException ''exit status 1'' None)"
    by (simp add: command_run_def helm_dependency_build_def example_env_def Let_def)
  from failed_build_raises_HelmException [OF made fails]
  show ?thesis by (simp add: helm_dependency_build_def str_path_def)
qed

text \<open>
  C1, as stated, fails when a build fails: of two descriptors that each declare one
  dependency, the first build exits with an error, the loop is left, and no command is
  ever run in the directory of the second.
\<close>

theorem one_build_per_declaring_descriptor_counterexample:
  "declares_dependencies
     (example_env [chart ''umbrella'', chart ''other''] [[''cache'', ''oci://r'', ''umbrella'']] [])
     (chart ''other'')
   \<and> chart ''other'' \<in> set (discovered
         (example_env [chart ''umbrella'', chart ''other''] [[''cache'', ''oci://r'', ''umbrella'']] [])
         example_root)
   \<and> trace (snd (build_helm_dependencies
         (example_env [chart ''umbrella'', chart ''other''] [[''cache'', ''oci://r'', ''umbrella'']] [])
         example_root example_state))
       = [Run (helm_dependency_build (parent (chart ''umbrella'')))]
   \<and> Run (helm_dependency_build (parent (chart ''other'')))
       \<notin> set (trace (snd (build_helm_dependencies
         (example_env [chart ''umbrella'', chart ''other''] [[''cache'', ''oci://r'', ''umbrella'']] [])
         example_root example_state)))"
  by (simp add: declares_dependencies_def descriptor_def discovered_def model_defs example_defs)

text \<open>
  C1, amended. When \<open>build_helm_dependencies\<close> returns normally, the commands it has run
  are exactly one \<open>helm dependency build\<close> per discovered descriptor that declares
  dependencies, in the order of discovery, each with the directory of its descriptor as
  working directory.
\<close>

theorem one_build_per_declaring_descriptor:
  assumes "fst (build_helm_dependencies env local_path s) = Inr ()"
  shows "trace (snd (build_helm_dependencies env local_path s)) =
           trace s @ map (\<lambda>chart_file.
                            Run \<lparr>cmd = [''helm'', ''dependency'', ''build''],
                                 cwd = parent chart_file, exc = HelmException\<rparr>)
                       (filter (declares_dependencies env) (discovered env local_path))"
proof -
  from assms have "fst (build_charts env (discovered env local_path) s) = Inr ()"
    by (simp add: build_helm_dependencies_fst)
  from build_charts_trace [OF this] show ?thesis
    by (simp add: build_helm_dependencies_trace helm_dependency_build_def HELM_BIN_def)
qed

theorem one_build_per_declaring_descriptor_witness:
  "trace (snd (build_helm_dependencies
          (example_env [chart ''umbrella'', chart ''simple''] [] []) example_root example_state))
     = [Run \<lparr>cmd = [''helm'', ''dependency'', ''build''],
             cwd = [''cache'', ''oci://r'', ''umbrella''], exc = HelmException\<rparr>]"
proof -
  let ?env = "example_env [chart ''umbrella'', chart ''simple''] [] []"
  have ok: "fst (build_helm_dependencies ?env example_root example_state) = Inr ()"
    by (simp add: model_defs example_defs)
  have found: "filter (declares_dependencies ?env) (discovered ?env example_root)
      = [chart ''umbrella'']"
    by (simp add: declares_dependencies_def descriptor_def discovered_def dict_get_def
        example_defs)
  have start: "trace example_state = []"
    by (simp add: example_state_def)
  have dir: "\<And>d. parent (chart d) = [''cache'', ''oci://r'', d]"
    by (simp add: chart_def parent_def)
  from one_build_per_declaring_descriptor [OF ok] found start
  show ?thesis by (simp add: dir)
qed

text \<open>
  C10. The descriptors are processed one after the other in the order of the recursive
  search. When processing one of them raises, the call ends there with that exception:
  the descriptors after it are not processed, and the commands already run for the
  descriptors before it stay in the trace, followed only by what the failing descriptor
  ran itself.
\<close>

theorem failure_stops_the_loop:
  assumes "path_exists env local_path"
    and "rglob env local_path ''Chart.yaml'' = xs @ chart_file # ys"
    and "fst (build_charts env xs s) = Inr ()"
    and "fst (build_chart_dependencies env chart_file s) = Inl e"
  shows "build_helm_dependencies env local_path s =
           build_charts env (xs @ [chart_file])
             (LOGGER DEBUG ''Found %d Chart.yaml files in %s''
                [ANat (length (xs @ chart_file # ys)), APath local_path] s)
         \<and> fst (build_helm_dependencies env local_path s) = Inl e
         \<and> trace (snd (build_helm_dependencies env local_path s)) =
             trace s
             @ map (\<lambda>f. Run (helm_dependency_build (parent f)))
                 (filter (declares_dependencies env) xs)
             @ events_since s (snd (build_chart_dependencies env chart_file s))"
proof -
  let ?s0 = "LOGGER DEBUG ''Found %d Chart.yaml files in %s''
                [ANat (length (xs @ chart_file # ys)), APath local_path] s"
  obtain r1 cs1 L1 where xs: "\<And>s. build_charts env xs s = (r1, emit (map Run cs1) L1 s)"
    using build_charts_effects [of env xs] by blast
  obtain r2 cs2 L2 where f: "\<And>s. build_charts env [chart_file] s = (r2, emit (map Run cs2) L2 s)"
    using build_charts_effects [of env "[chart_file]"] by blast
  from assms(3) xs have r1: "r1 = Inr ()" by simp
  have step: "\<And>s. build_chart_dependencies env chart_file s = (r2, emit (map Run cs2) L2 s)"
  proof -
    fix t
    from f [of t] show "build_chart_dependencies env chart_file t = (r2, emit (map Run cs2) L2 t)"
      by (auto split: prod.splits sum.splits)
  qed
  from assms(4) step have r2: "r2 = Inl e" by simp
  from assms(1,2) have d: "discovered env local_path = xs @ chart_file # ys"
    by (simp add: discovered_def)
  from assms(1,2) have "build_helm_dependencies env local_path s =
      build_charts env (xs @ chart_file # ys) ?s0"
    by (simp add: build_helm_dependencies_def Let_def)
  also have "\<dots> = build_charts env (xs @ [chart_file]) ?s0"
    using build_charts_append [of env xs "chart_file # ys" ?s0]
      build_charts_append [of env xs "[chart_file]" ?s0]
    by (simp add: xs r1 step r2)
  finally have whole: "build_helm_dependencies env local_path s =
      build_charts env (xs @ [chart_file]) ?s0" .
  have tr: "trace (snd (build_charts env xs s)) =
      trace s @ map (\<lambda>f. Run (helm_dependency_build (parent f)))
                  (filter (declares_dependencies env) xs)"
    using build_charts_trace [OF assms(3)] .
  have "build_charts env (xs @ [chart_file]) ?s0 =
      (Inl e, emit (map Run cs2) L2 (emit (map Run cs1) L1 ?s0))"
    by (simp add: build_charts_append xs r1 step r2)
  with whole tr show ?thesis
    by (simp add: xs step r2 emit_fields LOGGER_fields events_since_emit)
qed


theorem failure_stops_the_loop_witness:
  "fst (build_helm_dependencies
          (example_env [chart ''umbrella'', chart ''other'', chart ''third'']
             [[''cache'', ''oci://r'', ''other'']] [])
          example_root example_state)
     = Inl (Exn HelmException
              ''Failed to build dependencies for chart at cache/oci://r/other: exit status 1''
              (Some (Exn HelmException ''exit status 1'' None)))
   \<and> trace (snd (build_helm_dependencies
          (example_env [chart ''umbrella'', chart ''other'', chart ''third'']
             [[''cache'', ''oci://r'', ''other'']] [])
          example_root example_state))
       = [Run (helm_dependency_build [''cache'', ''oci://r'', ''umbrella'']),
          Run (helm_dependency_build [''cache'', ''oci://r'', ''other''])]"
proof -
  let ?env = "example_env [chart ''umbrella'', chart ''other'', chart ''third'']
                [[''cache'', ''oci://r'', ''other'']] []"
  have p: "path_exists ?env example_root"
    by (simp add: example_defs)
  have g: "rglob ?env example_root ''Chart.yaml''
      = [chart ''umbrella''] @ chart ''other'' # [chart ''third'']"
    by (simp add: example_defs)
  have before: "fst (build_charts ?env [chart ''umbrella''] example_state) = Inr ()"
    by (simp add: model_defs example_defs)
  have fails: "fst (build_chart_dependencies ?env (chart ''other'') example_state)
      = Inl (Exn HelmException
               ''Failed to build dependencies for chart at cache/oci://r/other: exit status 1''
               (Some (Exn HelmException ''exit status 1'' None)))"
    by (simp add: model_defs example_defs)
  have declared: "filter (declares_dependencies ?env) [chart ''umbrella''] = [chart ''umbrella'']"
    by (simp add: declares_dependencies_def descriptor_def dict_get_def example_defs)
  have made: "events_since example_state
      (snd (build_chart_dependencies ?env (chart ''other'') example_state))
      = [Run (helm_dependency_build [''cache'', ''oci://r'', ''other''])]"
    by (simp add: events_since_def model_defs example_defs)
  have start: "trace example_state = []"
    by (simp add: example_state_def)
  have dir: "\<And>d. parent (chart d) = [''cache'', ''oci://r'', d]"
    by (simp add: chart_def parent_def)
  from failure_stops_the_loop [OF p g before fails, THEN conjunct2] declared made start
  show ?thesis by (simp add: dir)
qed

lemma fetch_oci_cases:
  fixes env r s
  defines "P \<equiv> repo_path env (url (objects s r)) (version env (objects s r))"
  defines "target \<equiv> versioned_url env (objects s r)"
  defines "s3 \<equiv> (LOGGER INFO ''Fetching OCI repository %s'' [AObj (objects s r)]
                  (s\<lparr>cache_dirs := List.insert P (cache_dirs s)\<rparr>))
               \<lparr>trace := trace s @ [Pull target P]\<rparr>"
  defines "s5 \<equiv> \<lambda>res. LOGGER DEBUG ''Checking for Helm charts with dependencies in %s'' [APath P]
                  (LOGGER DEBUG ''Downloaded resources: %s'' [AFiles res] s3)"
  shows "fetch_oci env r s =
     (case oras_pull env target P of
        Inl e \<Rightarrow> (Inl e, s3)
      | Inr res \<Rightarrow>
          (case build_helm_dependencies env P (s5 res) of
             (Inl e, s6) \<Rightarrow> (Inl e, s6)
           | (Inr u, s6) \<Rightarrow>
               (Inr \<lparr>artifact_url = url (objects s r), artifact_ref = ref (objects s r),
                     artifact_local_path = P\<rparr>, s6)))"
proof -
  obtain rb cs L where eff:
    "\<And>t. build_helm_dependencies env
            (repo_path env (url (objects s r)) (version env (objects s r))) t
          = (rb, emit (map Run cs) L t)"
    using build_helm_dependencies_effects
      [of env "repo_path env (url (objects s r)) (version env (objects s r))"]
    by blast
  show ?thesis
    unfolding s5_def s3_def target_def P_def
    by (simp add: fetch_oci_def get_repo_path_def Let_def eff LOGGER_fields emit_fields
        split: sum.splits)
qed


text \<open>
  C8. \<open>fetch_oci\<close> writes to no manifest object: the heap of objects after the call is
  the heap before it, whether the call returns an artifact or raises.
\<close>

theorem fetch_oci_keeps_objects:
  "objects (snd (fetch_oci env r s)) = objects s"
proof -
  obtain rb cs L where eff:
    "\<And>t. build_helm_dependencies env
            (repo_path env (url (objects s r)) (version env (objects s r))) t
          = (rb, emit (map Run cs) L t)"
    using build_helm_dependencies_effects
      [of env "repo_path env (url (objects s r)) (version env (objects s r))"]
    by blast
  show ?thesis
    by (cases rb)
      (simp_all add: fetch_oci_cases eff LOGGER_fields emit_fields split: sum.splits)
qed

theorem fetch_oci_keeps_objects_witness:
  "objects (snd (fetch_oci (example_env [chart ''umbrella''] [] []) 0 example_state)) 0
     = example_obj
   \<and> objects (snd (fetch_oci (example_env [chart ''umbrella''] [] [''oci://r@sha256:ab''])
        0 example_state)) 0 = example_obj
   \<and> objects (snd (fetch_oci
        (example_env [chart ''umbrella''] [[''cache'', ''oci://r'', ''umbrella'']] [])
        0 example_state)) 0 = example_obj"
proof -
  have start: "objects example_state = (\<lambda>r. example_obj)"
    by (simp add: example_state_def)
  from fetch_oci_keeps_objects [of "example_env [chart ''umbrella''] [] []" 0 example_state]
    fetch_oci_keeps_objects
      [of "example_env [chart ''umbrella''] [] [''oci://r@sha256:ab'']" 0 example_state]
    fetch_oci_keeps_objects
      [of "example_env [chart ''umbrella''] [[''cache'', ''oci://r'', ''umbrella'']] []"
        0 example_state]
    start
  show ?thesis by simp
qed

text \<open>
  C5, amended. Every call of \<open>fetch_oci\<close> pulls exactly once, first of all its external
  calls, into the directory the cache assigns to (url, version), whatever the cache
  already holds; the only calls after the pull are command runs.
\<close>

theorem fetch_oci_always_pulls:
  "\<exists>cs. events_since s (snd (fetch_oci env r s)) =
          Pull (versioned_url env (objects s r))
               (repo_path env (url (objects s r)) (version env (objects s r)))
          # map Run cs"
proof -
  obtain rb cs L where eff:
    "\<And>t. build_helm_dependencies env
            (repo_path env (url (objects s r)) (version env (objects s r))) t
          = (rb, emit (map Run cs) L t)"
    using build_helm_dependencies_effects
      [of env "repo_path env (url (objects s r)) (version env (objects s r))"]
    by blast
  show ?thesis
  proof (cases "oras_pull env (versioned_url env (objects s r))
                  (repo_path env (url (objects s r)) (version env (objects s r)))")
    case (Inl e)
    then have "events_since s (snd (fetch_oci env r s)) =
        Pull (versioned_url env (objects s r))
             (repo_path env (url (objects s r)) (version env (objects s r))) # map Run []"
      by (simp add: fetch_oci_cases events_since_def)
    then show ?thesis by blast
  next
    case (Inr res)
    then have "events_since s (snd (fetch_oci env r s)) =
        Pull (versioned_url env (objects s r))
             (repo_path env (url (objects s r)) (version env (objects s r))) # map Run cs"
      by (cases rb)
        (simp_all add: fetch_oci_cases eff events_since_def LOGGER_fields emit_fields)
    then show ?thesis by blast
  qed
qed

text \<open>
  C5, as stated, fails: after a first fetch of an object pinned by digest the cache holds
  the directory of its (url, version) key, and a second fetch of the same object pulls
  again.
\<close>

theorem fetch_oci_skips_cached_counterexample:
  "[''cache'', ''oci://r'']
     \<in> set (cache_dirs (snd (fetch_oci (example_env [] [] []) 0 example_state)))
   \<and> repo_path (example_env [] [] []) (url example_obj)
        (version (example_env [] [] []) example_obj) = [''cache'', ''oci://r'']
   \<and> ref example_obj = Some \<lparr>digest = Some ''sha256:ab'', tag = None, semver = None\<rparr>
   \<and> version (example_env [] [] []) example_obj = Some ''sha256:ab''
   \<and> events_since (snd (fetch_oci (example_env [] [] []) 0 example_state))
        (snd (fetch_oci (example_env [] [] []) 0
               (snd (fetch_oci (example_env [] [] []) 0 example_state))))
       = [Pull ''oci://r@sha256:ab'' [''cache'', ''oci://r'']]"
  by (simp add: fetch_oci_def get_repo_path_def events_since_def model_defs example_defs)

text \<open>
  C7. A successful \<open>fetch_oci\<close> has pulled the versioned url into the directory the cache
  assigns to (url, version), has then run \<open>build_helm_dependencies\<close> on that directory
  from the state after the pull, and returns an artifact with the url and the ref of the
  object and that directory as local path. The external calls of the whole fetch are the
  pull followed by one \<open>helm dependency build\<close> per descriptor discovered under that
  directory that declares dependencies, each in the directory of its descriptor.
\<close>

theorem fetch_oci_success:
  assumes "fetch_oci env r s = (Inr artifact, s')"
  shows "artifact_url artifact = url (objects s r)
         \<and> artifact_ref artifact = ref (objects s r)
         \<and> artifact_local_path artifact
             = repo_path env (url (objects s r)) (version env (objects s r))
         \<and> (\<exists>res s5.
               oras_pull env (versioned_url env (objects s r)) (artifact_local_path artifact)
                 = Inr res
               \<and> trace s5 = trace s @ [Pull (versioned_url env (objects s r))
                                            (artifact_local_path artifact)]
               \<and> objects s5 = objects s
               \<and> cache_dirs s5 = List.insert (artifact_local_path artifact) (cache_dirs s)
               \<and> logged s5 = logged s @
                    [Log INFO ''Fetching OCI repository %s'' [AObj (objects s r)],
                     Log DEBUG ''Downloaded resources: %s'' [AFiles res],
                     Log DEBUG ''Checking for Helm charts with dependencies in %s''
                       [APath (artifact_local_path artifact)]]
               \<and> build_helm_dependencies env (artifact_local_path artifact) s5 = (Inr (), s'))
         \<and> trace s' =
             trace s
             @ Pull (versioned_url env (objects s r)) (artifact_local_path artifact)
             # map (\<lambda>chart_file.
                      Run \<lparr>cmd = [''helm'', ''dependency'', ''build''],
                           cwd = parent chart_file, exc = HelmException\<rparr>)
                 (filter (declares_dependencies env)
                    (discovered env (artifact_local_path artifact)))"
proof -
  let ?P = "repo_path env (url (objects s r)) (version env (objects s r))"
  let ?target = "versioned_url env (objects s r)"
  let ?s3 = "(LOGGER INFO ''Fetching OCI repository %s'' [AObj (objects s r)]
                  (s\<lparr>cache_dirs := List.insert ?P (cache_dirs s)\<rparr>))
               \<lparr>trace := trace s @ [Pull ?target ?P]\<rparr>"
  from assms obtain res where pull: "oras_pull env ?target ?P = Inr res"
    by (cases "oras_pull env ?target ?P") (simp_all add: fetch_oci_cases)
  let ?s5 = "LOGGER DEBUG ''Checking for Helm charts with dependencies in %s'' [APath ?P]
               (LOGGER DEBUG ''Downloaded resources: %s'' [AFiles res] ?s3)"
  obtain rb s6 where b: "build_helm_dependencies env ?P ?s5 = (rb, s6)"
    by (cases "build_helm_dependencies env ?P ?s5")
  from assms pull b have rb: "rb = Inr ()" and s6: "s6 = s'"
    and art: "artifact = \<lparr>artifact_url = url (objects s r), artifact_ref = ref (objects s r),
                           artifact_local_path = ?P\<rparr>"
    by (cases rb; simp add: fetch_oci_cases)+
  have t5: "trace ?s5 = trace s @ [Pull ?target ?P]"
    and o5: "objects ?s5 = objects s"
    and c5: "cache_dirs ?s5 = List.insert ?P (cache_dirs s)"
    and l5: "logged ?s5 = logged s @
        [Log INFO ''Fetching OCI repository %s'' [AObj (objects s r)],
         Log DEBUG ''Downloaded resources: %s'' [AFiles res],
         Log DEBUG ''Checking for Helm charts with dependencies in %s'' [APath ?P]]"
    by (simp_all add: LOGGER_fields)
  from b rb have "fst (build_charts env (discovered env ?P) ?s5) = Inr ()"
    using build_helm_dependencies_fst [of env ?P ?s5] by simp
  from build_charts_trace [OF this] b s6 t5
  have runs: "trace s' =
      trace s @ Pull ?target ?P
        # map (\<lambda>chart_file.
                 Run \<lparr>cmd = [''helm'', ''dependency'', ''build''],
                      cwd = parent chart_file, exc = HelmException\<rparr>)
            (filter (declares_dependencies env) (discovered env ?P))"
    using build_helm_dependencies_trace [of env ?P ?s5]
    by (simp add: helm_dependency_build_def HELM_BIN_def)
  have pinned: "\<exists>res s5.
      oras_pull env ?target ?P = Inr res
      \<and> trace s5 = trace s @ [Pull ?target ?P]
      \<and> objects s5 = objects s
      \<and> cache_dirs s5 = List.insert ?P (cache_dirs s)
      \<and> logged s5 = logged s @
           [Log INFO ''Fetching OCI repository %s'' [AObj (objects s r)],
            Log DEBUG ''Downloaded resources: %s'' [AFiles res],
            Log DEBUG ''Checking for Helm charts with dependencies in %s'' [APath ?P]]
      \<and> build_helm_dependencies env ?P s5 = (Inr (), s')"
    using pull t5 o5 c5 l5 b rb s6 by blast
  from pinned runs art show ?thesis by simp
qed

theorem fetch_oci_always_pulls_witness:
  "\<exists>cs. events_since example_state
          (snd (fetch_oci (example_env [chart ''umbrella''] [] []) 0 example_state))
        = Pull ''oci://r@sha256:ab'' [''cache'', ''oci://r''] # map Run cs"
proof -
  have obj: "objects example_state 0 = example_obj"
    by (simp add: example_state_def)
  have target: "versioned_url (example_env [chart ''umbrella''] [] []) example_obj
      = ''oci://r@sha256:ab''"
    by (simp add: example_defs)
  have dir: "repo_path (example_env [chart ''umbrella''] [] []) (url example_obj)
      (version (example_env [chart ''umbrella''] [] []) example_obj) = [''cache'', ''oci://r'']"
    by (simp add: example_defs)
  from fetch_oci_always_pulls [of example_state "example_env [chart ''umbrella''] [] []" 0]
  show ?thesis by (simp add: obj target dir)
qed

theorem fetch_oci_success_witness:
  "fst (fetch_oci (example_env [chart ''umbrella'', chart ''simple''] [] []) 0 example_state)
     = Inr \<lparr>artifact_url = ''oci://r'',
            artifact_ref = Some \<lparr>digest = Some ''sha256:ab'', tag = None, semver = None\<rparr>,
            artifact_local_path = [''cache'', ''oci://r'']\<rparr>
   \<and> trace (snd (fetch_oci (example_env [chart ''umbrella'', chart ''simple''] [] []) 0
                    example_state))
       = [Pull ''oci://r@sha256:ab'' [''cache'', ''oci://r''],
          Run \<lparr>cmd = [''helm'', ''dependency'', ''build''],
               cwd = [''cache'', ''oci://r'', ''umbrella''], exc = HelmException\<rparr>]"
proof -
  let ?env = "example_env [chart ''umbrella'', chart ''simple''] [] []"
  let ?artifact = "\<lparr>artifact_url = ''oci://r'',
            artifact_ref = Some \<lparr>digest = Some ''sha256:ab'', tag = None, semver = None\<rparr>,
            artifact_local_path = [''cache'', ''oci://r'']\<rparr>"
  have result: "fst (fetch_oci ?env 0 example_state) = Inr ?artifact"
    by (simp add: fetch_oci_def get_repo_path_def model_defs example_defs)
  then have ok: "fetch_oci ?env 0 example_state = (Inr ?artifact, snd (fetch_oci ?env 0 example_state))"
    by (simp add: prod_eq_iff)
  have obj: "objects example_state 0 = example_obj"
    by (simp add: example_state_def)
  have target: "versioned_url ?env example_obj = ''oci://r@sha256:ab''"
    by (simp add: example_defs)
  have start: "trace example_state = []"
    by (simp add: example_state_def)
  have found: "filter (declares_dependencies ?env) (discovered ?env [''cache'', ''oci://r''])
      = [chart ''umbrella'']"
    by (simp add: declares_dependencies_def descriptor_def discovered_def dict_get_def
        example_defs)
  have dir: "\<And>d. parent (chart d) = [''cache'', ''oci://r'', d]"
    by (simp add: chart_def parent_def)
  from fetch_oci_success
    [OF ok, THEN conjunct2, THEN conjunct2, THEN conjunct2, THEN conjunct2] result
  show ?thesis by (simp add: obj target start found dir)
qed

end
